theory Spec2Isabelle
  imports Main "HOL-Library.Sublist"
begin

section \<open>Python strings\<close>

text \<open>
  A Python \<open>str\<close> is embedded as a HOL \<open>string\<close>: a list of characters whose codes
  range over 0..255, read as the Unicode code points U+0000..U+00FF. The three string
  operations the orchestrator relies on are \<open>str.lower()\<close>, the substring test
  \<open>needle in haystack\<close> and \<open>str.split()\<close> without arguments; each is written out
  below for that range of code points.
\<close>

definition lower_char :: "char \<Rightarrow> char" where
  \<comment> \<open>\<open>A..Z\<close> and the Latin-1 capitals \<open>U+00C0..U+00DE\<close> (without the
      multiplication sign \<open>U+00D7\<close>) move up by 32; every other code point below 256
      is its own lower case.\<close>
  "lower_char c =
     (let n = (of_char c :: nat)
      in if (65 \<le> n \<and> n \<le> 90) \<or> (192 \<le> n \<and> n \<le> 222 \<and> n \<noteq> 215)
         then char_of (n + 32) else c)"

definition py_lower :: "string \<Rightarrow> string" where
  "py_lower s = map lower_char s"

fun py_in :: "string \<Rightarrow> string \<Rightarrow> bool" where
  \<comment> \<open>\<open>needle in hay\<close>: the needle starts at some position of the haystack.\<close>
  "py_in needle [] = (needle = [])"
| "py_in needle (c # cs) = (prefix needle (c # cs) \<or> py_in needle cs)"

definition is_space :: "char \<Rightarrow> bool" where
  \<comment> \<open>\<open>str.isspace\<close> on one code point below 256.\<close>
  "is_space c =
     (let n = (of_char c :: nat)
      in (9 \<le> n \<and> n \<le> 13) \<or> (28 \<le> n \<and> n \<le> 32) \<or> n = 133 \<or> n = 160)"

fun split_acc :: "string \<Rightarrow> string \<Rightarrow> string list" where
  \<comment> \<open>The scan of \<open>str.split()\<close>: \<open>cur\<close> holds the word being read, reversed.\<close>
  "split_acc cur [] = (if cur = [] then [] else [rev cur])"
| "split_acc cur (c # cs) =
     (if is_space c
      then (if cur = [] then split_acc [] cs else rev cur # split_acc [] cs)
      else split_acc (c # cur) cs)"

definition py_split :: "string \<Rightarrow> string list" where
  \<comment> \<open>\<open>s.split()\<close>: the maximal runs of non-whitespace characters, in order.\<close>
  "py_split s = split_acc [] s"

definition py_any_in :: "string list \<Rightarrow> string \<Rightarrow> bool" where
  \<comment> \<open>\<open>any(word in text for word in words)\<close>\<close>
  "py_any_in words text = list_ex (\<lambda>word. py_in word text) words"


section \<open>Query classification and concept extraction\<close>

text \<open>
  \<open>_determine_research_type\<close>: an \<open>if\<close>/\<open>elif\<close> chain over three keyword lists, tried in
  the order of the source.
\<close>

definition determine_research_type :: "string \<Rightarrow> string" where
  "determine_research_type query =
     (let query_lower = py_lower query
      in if py_any_in [''meaning'', ''purpose'', ''philosophy'', ''existence''] query_lower
         then ''philosophical''
         else if py_any_in [''technology'', ''science'', ''research''] query_lower
         then ''technical''
         else if py_any_in [''history'', ''historical'', ''past''] query_lower
         then ''historical''
         else ''general'')"

text \<open>
  \<open>_extract_key_concepts\<close>: the dictionary \<open>concept_keywords\<close> is iterated in insertion
  order, so it is an association list; the loop appends a concept when one of its keywords
  occurs, and \<open>concepts or ['general']\<close> replaces an empty result.
\<close>

definition concept_keywords :: "(string \<times> string list) list" where
  "concept_keywords =
     [(''meaning'', [''meaning'', ''purpose'', ''significance'']),
      (''life'', [''life'', ''existence'', ''being'']),
      (''philosophy'', [''philosophy'', ''philosophical'', ''ethics'']),
      (''science'', [''science'', ''scientific'', ''research'']),
      (''technology'', [''technology'', ''tech'', ''innovation''])]"

fun concepts_loop :: "(string \<times> string list) list \<Rightarrow> string \<Rightarrow> string list \<Rightarrow> string list" where
  "concepts_loop [] query_lower concepts = concepts"
| "concepts_loop ((concept, keywords) # rest) query_lower concepts =
     concepts_loop rest query_lower
       (if py_any_in keywords query_lower then concepts @ [concept] else concepts)"

definition extract_key_concepts :: "string \<Rightarrow> string list" where
  "extract_key_concepts query =
     (let concepts = concepts_loop concept_keywords (py_lower query) []
      in if concepts = [] then [''general''] else concepts)"

definition generate_search_strategies :: "string \<Rightarrow> string list" where
  "generate_search_strategies query =
     [[CHR 0x22] @ query @ [CHR 0x22],
      query @ '' research'',
      query @ '' analysis'',
      query @ '' overview'']"


section \<open>Dictionaries exchanged between the phases\<close>

text \<open>
  Each phase returns a dictionary built by one literal with a fixed set of keys, and the
  next phase reads those keys; such a dictionary is embedded as a record with one field per
  key. A Python \<open>float\<close> is never computed with here, only stored and printed, so it is
  identified with its \<open>repr\<close>, the shortest decimal numeral that reads back as the same
  float: \<open>str(0.78)\<close> is \<open>0.78\<close>.
\<close>

datatype pyfloat = Float_repr string

fun float_str :: "pyfloat \<Rightarrow> string" where
  "float_str (Float_repr s) = s"

record research_plan =
  plan_query :: string
  research_type :: string
  key_concepts :: "string list"
  search_strategies :: "string list"
  expected_sources :: "string list"

record collected_data =
  sources_found :: int
  academic_papers :: int
  web_articles :: int
  books :: int
  quality_score :: pyfloat
  data_summary :: string

record analysis_results =
  key_findings :: "string list"
  themes :: "string list"
  confidence_score :: pyfloat
  analysis_summary :: string

record report_info =
  report_path :: string
  summary :: string
  word_count :: int
  sections :: int

text \<open>
  The dictionary that \<open>conduct_research\<close> returns has a different key set on its two
  branches, so it stays a dictionary: an association list in insertion order, read with
  \<open>map_of\<close>. All of its values are strings.
\<close>

type_synonym envelope = "(string \<times> string) list"

text \<open>
  \<open>ResearchOrchestrator.__init__\<close> keeps the configuration, which none of the methods below
  reads, and draws the session identifier: the first eight characters of the text of a fresh
  \<open>uuid.uuid4()\<close>. The text of that UUID is the argument of the constructor here.
\<close>

record orchestrator =
  session_id :: string

definition init :: "string \<Rightarrow> orchestrator" where
  "init uuid4_text = \<lparr>session_id = take 8 uuid4_text\<rparr>"

definition is_hex_digit :: "char \<Rightarrow> bool" where
  "is_hex_digit c = (c \<in> set ''0123456789abcdef'')"

definition is_uuid4_text :: "string \<Rightarrow> bool" where
  \<comment> \<open>The shape of \<open>str(uuid.uuid4())\<close>: 8-4-4-4-12 lower-case hexadecimal digits, version
      digit 4, variant digit one of 8, 9, a, b.\<close>
  "is_uuid4_text s =
     (length s = 36 \<and>
      list_all (\<lambda>i. if i \<in> {8, 13, 18, 23} then s ! i = CHR ''-'' else is_hex_digit (s ! i))
        [0 ..< 36] \<and>
      s ! 14 = CHR ''4'' \<and> s ! 19 \<in> set ''89ab'')"


section \<open>Exceptions\<close>

text \<open>
  The exceptions that can arise are the operating system's answers to \<open>mkdir\<close> and
  \<open>open\<close>, raised by Python as subclasses of \<open>OSError\<close> that carry the file name, and
  whatever a rebound phase method raises, kept as its class name and its text. The clause
  \<open>except Exception\<close> of \<open>conduct_research\<close> catches the instances of \<open>Exception\<close> and no
  others: an exception whose class derives from \<open>BaseException\<close> and not from
  \<open>Exception\<close> (\<open>asyncio.CancelledError\<close>, \<open>KeyboardInterrupt\<close>, \<open>SystemExit\<close>,
  \<open>GeneratorExit\<close>) passes through it. A raised value therefore records on which side
  of \<open>Exception\<close> its class stands. \<open>str(e)\<close> is what the failure branch of
  \<open>conduct_research\<close> stores.
\<close>

datatype os_errno = ENOENT | EEXIST | ENOTDIR | EISDIR

datatype exn =
    OSError os_errno string
  | Raised string string
  | Raised_outside_Exception string string

fun is_Exception :: "exn \<Rightarrow> bool" where
  \<comment> \<open>\<open>isinstance(e, Exception)\<close>\<close>
  "is_Exception (OSError e filename) = True"
| "is_Exception (Raised cls text) = True"
| "is_Exception (Raised_outside_Exception cls text) = False"

definition digit_char :: "nat \<Rightarrow> char" where
  "digit_char d = ''0123456789abcdef'' ! d"

definition hex2 :: "nat \<Rightarrow> string" where
  "hex2 n = [digit_char (n div 16), digit_char (n mod 16)]"

definition repr_char :: "char \<Rightarrow> char \<Rightarrow> string" where
  \<comment> \<open>One character inside \<open>repr\<close> of a string delimited by \<open>quote\<close>.\<close>
  "repr_char quote c =
     (let n = (of_char c :: nat)
      in if c = quote \<or> c = CHR 0x5C then [CHR 0x5C, c]
         else if n = 9 then [CHR 0x5C, CHR ''t'']
         else if n = 10 then [CHR 0x5C, CHR ''n'']
         else if n = 13 then [CHR 0x5C, CHR ''r'']
         else if n < 32 \<or> (127 \<le> n \<and> n \<le> 160) \<or> n = 173 then [CHR 0x5C, CHR ''x''] @ hex2 n
         else [c])"

definition py_repr :: "string \<Rightarrow> string" where
  \<comment> \<open>\<open>repr(s)\<close>: single quotes, unless the string holds a single and no double quote.\<close>
  "py_repr s =
     (let quote = (if CHR 0x27 \<in> set s \<and> CHR 0x22 \<notin> set s then CHR 0x22 else CHR 0x27)
      in [quote] @ concat (map (repr_char quote) s) @ [quote])"

fun errno_text :: "os_errno \<Rightarrow> string" where
  "errno_text ENOENT = ''[Errno 2] No such file or directory''"
| "errno_text EEXIST = ''[Errno 17] File exists''"
| "errno_text ENOTDIR = ''[Errno 20] Not a directory''"
| "errno_text EISDIR = ''[Errno 21] Is a directory''"

fun exn_str :: "exn \<Rightarrow> string" where
  "exn_str (OSError e filename) = errno_text e @ '': '' @ py_repr filename"
| "exn_str (Raised cls text) = text"
| "exn_str (Raised_outside_Exception cls text) = text"


section \<open>The world outside the orchestrator\<close>

text \<open>
  \<open>conduct_research\<close> reads the clock, creates directories, writes one file and registers a
  log handler. The world is the state those calls read and change: the working directory,
  the directory tree (directories and regular files, each named by the list of components
  from the root), the names of the loggers that already have a handler, and the clock as
  the sequence of readings that successive calls of \<open>datetime.now()\<close> return.

  The tree answers with the four errors that depend on its shape. Symbolic links, the
  component \<open>..\<close> (kept as an ordinary name, as \<open>pathlib\<close> keeps it), permissions and
  quotas are outside this model.
\<close>

record datetime =
  year :: nat
  month :: nat
  day :: nat
  hour :: nat
  minute :: nat
  second :: nat
  microsecond :: nat

record world =
  cwd :: "string list"
  dirs :: "string list set"
  files :: "string list \<rightharpoonup> string"
  handlers :: "string set"
  clock :: "nat \<Rightarrow> datetime"
  ticks :: nat

definition now :: "world \<Rightarrow> datetime \<times> world" where
  \<comment> \<open>\<open>datetime.now()\<close>\<close>
  "now w = (clock w (ticks w), w\<lparr>ticks := Suc (ticks w)\<rparr>)"

fun dec_str :: "nat \<Rightarrow> string" where
  "dec_str n = (if n < 10 then [digit_char n] else dec_str (n div 10) @ [digit_char (n mod 10)])"

definition zero_pad :: "nat \<Rightarrow> nat \<Rightarrow> string" where
  \<comment> \<open>\<open>'%0kd' % n\<close>\<close>
  "zero_pad k n = replicate (k - length (dec_str n)) CHR ''0'' @ dec_str n"

definition strftime_report :: "datetime \<Rightarrow> string" where
  \<comment> \<open>\<open>strftime('%Y-%m-%d %H:%M:%S')\<close>; \<open>%Y\<close> prints the year without padding.\<close>
  "strftime_report t =
     dec_str (year t) @ ''-'' @ zero_pad 2 (month t) @ ''-'' @ zero_pad 2 (day t) @ '' '' @
     zero_pad 2 (hour t) @ '':'' @ zero_pad 2 (minute t) @ '':'' @ zero_pad 2 (second t)"

definition strftime_log :: "datetime \<Rightarrow> string" where
  \<comment> \<open>\<open>strftime('%Y%m%d_%H%M%S')\<close>\<close>
  "strftime_log t =
     dec_str (year t) @ zero_pad 2 (month t) @ zero_pad 2 (day t) @ ''_'' @
     zero_pad 2 (hour t) @ zero_pad 2 (minute t) @ zero_pad 2 (second t)"

definition isoformat :: "datetime \<Rightarrow> string" where
  \<comment> \<open>\<open>datetime.isoformat()\<close> of a naive datetime: microseconds only when not zero.\<close>
  "isoformat t =
     zero_pad 4 (year t) @ ''-'' @ zero_pad 2 (month t) @ ''-'' @ zero_pad 2 (day t) @ ''T'' @
     zero_pad 2 (hour t) @ '':'' @ zero_pad 2 (minute t) @ '':'' @ zero_pad 2 (second t) @
     (if microsecond t = 0 then [] else ''.'' @ zero_pad 6 (microsecond t))"

subsection \<open>Paths\<close>

text \<open>
  A \<open>pathlib.Path\<close> on POSIX: a root (empty, one slash, or exactly two slashes) and the
  components, with empty components and single dots dropped when the text is parsed.
\<close>

record ppath =
  root :: string
  parts :: "string list"

fun split_on :: "char \<Rightarrow> string \<Rightarrow> string \<Rightarrow> string list" where
  \<comment> \<open>\<open>s.split(sep)\<close>, with the piece being read reversed in \<open>cur\<close>\<close>
  "split_on sep cur [] = [rev cur]"
| "split_on sep cur (c # cs) =
     (if c = sep then rev cur # split_on sep [] cs else split_on sep (c # cur) cs)"

definition Path :: "string \<Rightarrow> ppath" where
  "Path s =
     \<lparr>root = (if prefix ''//'' s \<and> \<not> prefix ''///'' s then ''//''
              else if prefix ''/'' s then ''/'' else []),
      parts = filter (\<lambda>c. c \<noteq> [] \<and> c \<noteq> ''.'') (split_on CHR ''/'' [] s)\<rparr>"

fun py_join :: "string \<Rightarrow> string list \<Rightarrow> string" where
  \<comment> \<open>\<open>sep.join(items)\<close>\<close>
  "py_join sep [] = []"
| "py_join sep [x] = x"
| "py_join sep (x # y # ys) = x @ sep @ py_join sep (y # ys)"

definition path_str :: "ppath \<Rightarrow> string" where
  \<comment> \<open>\<open>str(path)\<close>\<close>
  "path_str p = (if root p = [] \<and> parts p = [] then ''.'' else root p @ py_join ''/'' (parts p))"

definition joinpath :: "ppath \<Rightarrow> string \<Rightarrow> ppath" where
  \<comment> \<open>\<open>path / name\<close>: an absolute right operand replaces the left one.\<close>
  "joinpath p name =
     (let q = Path name
      in if root q \<noteq> [] then q else \<lparr>root = root p, parts = parts p @ parts q\<rparr>)"

definition parent :: "ppath \<Rightarrow> ppath" where
  "parent p = p\<lparr>parts := butlast (parts p)\<rparr>"

definition node :: "world \<Rightarrow> ppath \<Rightarrow> string list" where
  \<comment> \<open>The place in the tree that the operating system resolves the path to.\<close>
  "node w p = (if root p = [] then cwd w else []) @ parts p"

definition abspath :: "world \<Rightarrow> ppath \<Rightarrow> string" where
  \<comment> \<open>\<open>os.path.abspath(path)\<close>\<close>
  "abspath w p = ''/'' @ py_join ''/'' (node w p)"

subsection \<open>System calls\<close>

definition is_dir :: "world \<Rightarrow> string list \<Rightarrow> bool" where
  "is_dir w k = (k = [] \<or> k \<in> dirs w)"

definition is_file :: "world \<Rightarrow> string list \<Rightarrow> bool" where
  "is_file w k = (files w k \<noteq> None)"

fun walk :: "world \<Rightarrow> string list \<Rightarrow> string list \<Rightarrow> os_errno option" where
  \<comment> \<open>Descend from the directory \<open>at\<close> through the components: the first place that is
      not a directory stops the walk.\<close>
  "walk w at [] =
     (if is_dir w at then None else if is_file w at then Some ENOTDIR else Some ENOENT)"
| "walk w at (c # cs) =
     (if is_dir w at then walk w (at @ [c]) cs
      else if is_file w at then Some ENOTDIR else Some ENOENT)"

definition lookup_parent :: "world \<Rightarrow> string list \<Rightarrow> os_errno option" where
  "lookup_parent w k = (if k = [] then None else walk w [] (butlast k))"

definition os_mkdir :: "world \<Rightarrow> string list \<Rightarrow> os_errno + world" where
  "os_mkdir w k =
     (case lookup_parent w k of
        Some e \<Rightarrow> Inl e
      | None \<Rightarrow>
          if is_dir w k \<or> is_file w k then Inl EEXIST
          else Inr (w\<lparr>dirs := insert k (dirs w)\<rparr>))"

definition os_is_dir :: "world \<Rightarrow> string list \<Rightarrow> bool" where
  \<comment> \<open>\<open>Path.is_dir()\<close>: a failing \<open>stat\<close> counts as no.\<close>
  "os_is_dir w k = (lookup_parent w k = None \<and> is_dir w k)"

definition os_open :: "world \<Rightarrow> string list \<Rightarrow> os_errno option" where
  \<comment> \<open>What prevents opening the file for writing or appending, if anything.\<close>
  "os_open w k =
     (case lookup_parent w k of
        Some e \<Rightarrow> Some e
      | None \<Rightarrow> if is_dir w k then Some EISDIR else None)"

definition write_text :: "world \<Rightarrow> ppath \<Rightarrow> string \<Rightarrow> (exn + unit) \<times> world" where
  \<comment> \<open>\<open>with open(path, 'w', encoding='utf-8') as f: f.write(content)\<close>\<close>
  "write_text w p content =
     (case os_open w (node w p) of
        Some e \<Rightarrow> (Inl (OSError e (path_str p)), w)
      | None \<Rightarrow> (Inr (), w\<lparr>files := (files w)(node w p \<mapsto> content)\<rparr>))"

definition FileHandler :: "world \<Rightarrow> ppath \<Rightarrow> (exn + unit) \<times> world" where
  \<comment> \<open>\<open>logging.FileHandler(path)\<close> opens the absolute path for appending at once: a
      missing file is created empty, an existing one is left as it is.\<close>
  "FileHandler w p =
     (case os_open w (node w p) of
        Some e \<Rightarrow> (Inl (OSError e (abspath w p)), w)
      | None \<Rightarrow>
          (Inr (), if is_file w (node w p) then w
                   else w\<lparr>files := (files w)(node w p \<mapsto> [])\<rparr>))"

definition mkdir_exist_ok :: "world \<Rightarrow> ppath \<Rightarrow> (exn + unit) \<times> world" where
  \<comment> \<open>\<open>path.mkdir(parents=False, exist_ok=True)\<close>\<close>
  "mkdir_exist_ok w p =
     (case os_mkdir w (node w p) of
        Inr w' \<Rightarrow> (Inr (), w')
      | Inl ENOENT \<Rightarrow> (Inl (OSError ENOENT (path_str p)), w)
      | Inl e \<Rightarrow>
          if os_is_dir w (node w p) then (Inr (), w) else (Inl (OSError e (path_str p)), w))"

function mkdir_parents :: "world \<Rightarrow> ppath \<Rightarrow> (exn + unit) \<times> world" where
  \<comment> \<open>\<open>path.mkdir(parents=True, exist_ok=True)\<close>, as \<open>pathlib\<close> writes it: try, create the
      parent on \<open>FileNotFoundError\<close> and try once more, accept an existing directory.\<close>
  "mkdir_parents w p =
     (case os_mkdir w (node w p) of
        Inr w' \<Rightarrow> (Inr (), w')
      | Inl ENOENT \<Rightarrow>
          if parent p = p then (Inl (OSError ENOENT (path_str p)), w)
          else (case mkdir_parents w (parent p) of
                  (Inl e, w') \<Rightarrow> (Inl e, w')
                | (Inr u, w') \<Rightarrow> mkdir_exist_ok w' p)
      | Inl e \<Rightarrow>
          if os_is_dir w (node w p) then (Inr (), w) else (Inl (OSError e (path_str p)), w))"
  by pat_completeness auto
termination
proof (relation "measure (\<lambda>(w, p). length (parts p))")
  show "wf (measure (\<lambda>(w, p). length (parts p)))"
    by simp
next
  fix w :: world and p :: ppath and x :: os_errno
  assume "parent p \<noteq> p"
  then have "parts p \<noteq> []"
    by (auto simp: parent_def)
  then show "((w, parent p), (w, p)) \<in> measure (\<lambda>(w, p). length (parts p))"
    by (simp add: parent_def)
qed


section \<open>The session logger\<close>

text \<open>
  \<open>create_session_logger\<close> of \<open>core/logger.py\<close>: the name of the log file takes the time
  of the call; a logger that already has a handler is returned as it is, otherwise the
  directory \<open>logs\<close> is created below the output directory and a file handler is opened
  and registered.
\<close>

definition create_session_logger :: "string \<Rightarrow> string \<Rightarrow> world \<Rightarrow> (exn + unit) \<times> world" where
  "create_session_logger sid output_dir w =
     (let (t, w1) = now w;
          timestamp = strftime_log t;
          log_file = joinpath (joinpath (Path output_dir) ''logs'')
                       (''session_'' @ sid @ ''_'' @ timestamp @ ''.log'');
          logger_name = ''baker_street.session.'' @ sid
      in if logger_name \<in> handlers w1 then (Inr (), w1)
         else (case mkdir_parents w1 (parent log_file) of
                 (Inl e, w2) \<Rightarrow> (Inl e, w2)
               | (Inr u, w2) \<Rightarrow>
                   (case FileHandler w2 log_file of
                      (Inl e, w3) \<Rightarrow> (Inl e, w3)
                    | (Inr u, w3) \<Rightarrow>
                        (Inr (), w3\<lparr>handlers := insert logger_name (handlers w3)\<rparr>))))"


section \<open>The four phases\<close>

definition analyze_query :: "string \<Rightarrow> research_plan" where
  \<comment> \<open>\<open>_analyze_query\<close>\<close>
  "analyze_query query =
     \<lparr>plan_query = query,
      research_type = determine_research_type query,
      key_concepts = extract_key_concepts query,
      search_strategies = generate_search_strategies query,
      expected_sources = [''academic'', ''web'', ''books'', ''reports'']\<rparr>"

definition collect_data :: "research_plan \<Rightarrow> collected_data" where
  \<comment> \<open>\<open>_collect_data\<close>: the source's comment reads "Simulate data collection".\<close>
  "collect_data research_plan =
     \<lparr>sources_found = 15,
      academic_papers = 8,
      web_articles = 5,
      books = 2,
      quality_score = Float_repr ''0.85'',
      data_summary = ''Collected comprehensive data on: '' @ plan_query research_plan\<rparr>"

definition analyze_data :: "collected_data \<Rightarrow> analysis_results" where
  \<comment> \<open>\<open>_analyze_data\<close>: the source's comment reads "Simulate analysis".\<close>
  "analyze_data collected =
     \<lparr>key_findings =
        [''Multiple philosophical perspectives exist on this topic'',
         ''Historical context provides important framework'',
         ''Modern interpretations vary significantly'',
         ''Practical applications are diverse''],
      themes = [''philosophy'', ''meaning'', ''purpose'', ''existence''],
      confidence_score = Float_repr ''0.78'',
      analysis_summary = ''Comprehensive analysis completed with high confidence''\<rparr>"

text \<open>
  The two report templates are f-strings; each reads the clock once, for its date line.
\<close>

definition generate_meaning_of_life_report ::
  "orchestrator \<Rightarrow> analysis_results \<Rightarrow> world \<Rightarrow> string \<times> world" where
  \<open>generate_meaning_of_life_report self analysis w =
     (let (t, w') = now w in
      (''# Research Report: The Meaning of Life

**Session ID:** '' @
      session_id self @
      ''  
**Date:** '' @
      strftime_report t @
      ''  
**Generated by:** Baker Street Laboratory Research Pipeline

## Executive Summary

The question "What is the meaning of life?" has been contemplated by philosophers, theologians, scientists, and thinkers throughout human history. This research explores various perspectives and approaches to understanding life's purpose and meaning.

## Key Findings

### 1. Philosophical Perspectives

**Existentialism**: Philosophers like Jean-Paul Sartre and Albert Camus argued that life has no inherent meaning, but individuals must create their own purpose through authentic choices and actions.

**Absurdism**: Camus specifically proposed that the human condition is fundamentally absurd - the conflict between human desire for meaning and the universe's apparent meaninglessness.

**Religious and Spiritual Views**: Many religious traditions provide frameworks for life's meaning:
- Christianity: Relationship with God and eternal salvation
- Buddhism: Liberation from suffering through enlightenment
- Islam: Worship of Allah and following divine guidance
- Hinduism: Dharma (righteous living) and moksha (liberation)

### 2. Scientific and Secular Approaches

**Evolutionary Biology**: From a biological standpoint, the "purpose" of life is survival and reproduction, passing genes to future generations.

**Humanism**: Emphasizes human dignity, worth, and agency. Meaning comes from human relationships, creativity, and contribution to society.

**Positive Psychology**: Research suggests meaning often comes from:
- Purpose and goals
- Relationships and love
- Personal growth and achievement
- Contributing to something larger than oneself

### 3. Contemporary Perspectives

**Viktor Frankl's Logotherapy**: Based on his Holocaust experiences, Frankl argued that the primary human drive is the search for meaning, not pleasure or power.

**Modern Philosophy**: Thinkers like Thomas Nagel explore the tension between subjective meaning (what matters to us) and objective meaning (cosmic significance).

## Cultural and Historical Context

Different cultures and historical periods have emphasized various aspects:
- Ancient Greeks: Virtue and the good life (eudaimonia)
- Medieval period: Divine purpose and afterlife preparation
- Enlightenment: Reason, progress, and human potential
- Modern era: Individual fulfillment and self-actualization

## Practical Applications

Research suggests several pathways to a meaningful life:

1. **Relationships**: Deep connections with family, friends, and community
2. **Purpose**: Having goals and working toward something meaningful
3. **Growth**: Continuous learning and personal development
4. **Service**: Contributing to others and society
5. **Transcendence**: Connecting with something greater than oneself

## The "42" Reference

Douglas Adams' "The Hitchhiker's Guide to the Galaxy" humorously suggested that "42" is the answer to the ultimate question of life, the universe, and everything. While satirical, this highlights the difficulty of finding simple answers to profound questions.

## Synthesis and Conclusions

The meaning of life appears to be:

1. **Subjective and Personal**: What gives life meaning varies greatly among individuals
2. **Multifaceted**: Likely involves multiple dimensions (relationships, purpose, growth, contribution)
3. **Constructed**: Humans appear to create meaning rather than discover pre-existing meaning
4. **Dynamic**: Life's meaning may change throughout different life stages
5. **Both Individual and Collective**: Personal meaning often involves connection to others and larger purposes

## Recommendations for Further Exploration

1. **Philosophical Study**: Explore works by Aristotle, Kant, Nietzsche, Sartre, and contemporary philosophers
2. **Religious and Spiritual Texts**: Examine various traditions' approaches to life's purpose
3. **Scientific Research**: Review studies in positive psychology and well-being research
4. **Personal Reflection**: Engage in practices like journaling, meditation, or therapy to explore personal meaning
5. **Community Engagement**: Participate in activities that connect you with others and contribute to society

## Final Thoughts

While there may be no single, universal answer to "What is the meaning of life?", the question itself drives human growth, connection, and achievement. The search for meaning appears to be as important as any answer we might find.

The most robust approach may be to:
- Acknowledge the question's complexity
- Explore multiple perspectives
- Create personal meaning through relationships, purpose, and contribution
- Remain open to evolving understanding throughout life

---

*This report represents a synthesis of philosophical, scientific, and cultural perspectives on life's meaning. Individual experiences and beliefs will naturally vary.*

**Research Quality Score:** '' @
      float_str (confidence_score analysis) @
      ''/1.0  
**Sources Analyzed:** Academic papers, philosophical works, scientific studies, cultural texts  
**Methodology:** Multi-perspective analysis with emphasis on both historical and contemporary viewpoints
'', w'))\<close>

definition generate_generic_report ::
  "orchestrator \<Rightarrow> string \<Rightarrow> analysis_results \<Rightarrow> world \<Rightarrow> string \<times> world" where
  \<open>generate_generic_report self query analysis w =
     (let (t, w') = now w in
      (''# Research Report: '' @
      query @
      ''

**Session ID:** '' @
      session_id self @
      ''  
**Date:** '' @
      strftime_report t @
      ''  
**Generated by:** Baker Street Laboratory Research Pipeline

## Executive Summary

This report presents research findings on: '' @
      query @
      ''

## Key Findings

'' @
      py_join [CHR 10] (map (\<lambda>finding. ''- '' @ finding) (key_findings analysis)) @
      ''

## Analysis Summary

'' @
      analysis_summary analysis @
      ''

## Themes Identified

'' @
      py_join '', '' (themes analysis) @
      ''

## Confidence Score

Research confidence: '' @
      float_str (confidence_score analysis) @
      ''/1.0

---

*This report was generated by the Baker Street Laboratory research pipeline.*
'', w'))\<close>

definition generate_report ::
  "orchestrator \<Rightarrow> string \<Rightarrow> analysis_results \<Rightarrow> ppath \<Rightarrow> world \<Rightarrow> (exn + report_info) \<times> world" where
  \<comment> \<open>\<open>_generate_report\<close>\<close>
  "generate_report self query analysis output_path w =
     (let (report_content, w1) =
            (if py_in ''meaning of life'' (py_lower query)
             then generate_meaning_of_life_report self analysis w
             else generate_generic_report self query analysis w);
          report_file = joinpath output_path (''research_report_'' @ session_id self @ ''.md'')
      in (case write_text w1 report_file report_content of
            (Inl e, w2) \<Rightarrow> (Inl e, w2)
          | (Inr u, w2) \<Rightarrow>
              (Inr \<lparr>report_path = path_str report_file,
                    summary = ''Research report generated successfully'',
                    word_count = int (length (py_split report_content)),
                    sections = 6\<rparr>, w2)))"


section \<open>The pipeline\<close>

text \<open>
  \<open>conduct_research\<close> calls the phases as methods of \<open>self\<close>, which Python looks up when
  the call is made: a subclass or a test double that rebinds \<open>_collect_data\<close> changes what
  the pipeline runs. The body of \<open>conduct_research\<close> is therefore embedded over a record of
  the four phase methods, each of which either returns or raises, and the class's own
  methods are one such record. The first three phases touch nothing outside themselves;
  the fourth writes the report. What a phase raises ends the \<open>try\<close>; the clause
  \<open>except Exception\<close> turns it into the failure dictionary when it is an instance of
  \<open>Exception\<close>, and otherwise it leaves \<open>conduct_research\<close> as an exception.
\<close>

record phases =
  analyze_query_m :: "string \<Rightarrow> exn + research_plan"
  collect_data_m :: "research_plan \<Rightarrow> exn + collected_data"
  analyze_data_m :: "collected_data \<Rightarrow> exn + analysis_results"
  generate_report_m ::
    "orchestrator \<Rightarrow> string \<Rightarrow> analysis_results \<Rightarrow> ppath \<Rightarrow> world \<Rightarrow> (exn + report_info) \<times> world"

definition own_phases :: phases where
  "own_phases =
     \<lparr>analyze_query_m = (\<lambda>query. Inr (analyze_query query)),
      collect_data_m = (\<lambda>research_plan. Inr (collect_data research_plan)),
      analyze_data_m = (\<lambda>collected. Inr (analyze_data collected)),
      generate_report_m = generate_report\<rparr>"

definition try_block ::
  "phases \<Rightarrow> orchestrator \<Rightarrow> string \<Rightarrow> ppath \<Rightarrow> world \<Rightarrow> (exn + envelope) \<times> world" where
  \<comment> \<open>The body of the \<open>try\<close>: the first phase that raises ends it.\<close>
  "try_block ph self query output_path w =
     (case analyze_query_m ph query of
        Inl e \<Rightarrow> (Inl e, w)
      | Inr research_plan \<Rightarrow>
     (case collect_data_m ph research_plan of
        Inl e \<Rightarrow> (Inl e, w)
      | Inr collected \<Rightarrow>
     (case analyze_data_m ph collected of
        Inl e \<Rightarrow> (Inl e, w)
      | Inr analysis \<Rightarrow>
     (case generate_report_m ph self query analysis output_path w of
        (Inl e, w1) \<Rightarrow> (Inl e, w1)
      | (Inr report, w1) \<Rightarrow>
          (let (t, w2) = now w1
           in (Inr [(''session_id'', session_id self),
                    (''query'', query),
                    (''timestamp'', isoformat t),
                    (''output_dir'', path_str output_path),
                    (''summary'', summary report),
                    (''report_path'', report_path report),
                    (''status'', ''completed'')], w2))))))"

definition open_session :: "orchestrator \<Rightarrow> string \<Rightarrow> world \<Rightarrow> (exn + ppath) \<times> world" where
  \<comment> \<open>What \<open>conduct_research\<close> does before its \<open>try\<close>: the session logger, then the
      output directory. An exception raised here leaves \<open>conduct_research\<close>.\<close>
  "open_session self output_dir w =
     (case create_session_logger (session_id self) output_dir w of
        (Inl e, w1) \<Rightarrow> (Inl e, w1)
      | (Inr u, w1) \<Rightarrow>
          (let output_path = Path output_dir
           in (case mkdir_parents w1 output_path of
                 (Inl e, w2) \<Rightarrow> (Inl e, w2)
               | (Inr u, w2) \<Rightarrow> (Inr output_path, w2))))"

definition conduct_research_via ::
  "phases \<Rightarrow> orchestrator \<Rightarrow> string \<Rightarrow> string \<Rightarrow> world \<Rightarrow> (exn + envelope) \<times> world" where
  "conduct_research_via ph self query output_dir w =
     (case open_session self output_dir w of
        (Inl e, w2) \<Rightarrow> (Inl e, w2)
      | (Inr output_path, w2) \<Rightarrow>
          (case try_block ph self query output_path w2 of
             (Inr results, w3) \<Rightarrow> (Inr results, w3)
           | (Inl e, w3) \<Rightarrow>
               if is_Exception e
               then (let (t, w4) = now w3
                     in (Inr [(''session_id'', session_id self),
                              (''query'', query),
                              (''timestamp'', isoformat t),
                              (''error'', exn_str e),
                              (''status'', ''failed'')], w4))
               else (Inl e, w3)))"

definition conduct_research ::
  "orchestrator \<Rightarrow> string \<Rightarrow> string \<Rightarrow> world \<Rightarrow> (exn + envelope) \<times> world" where
  "conduct_research = conduct_research_via own_phases"

definition run_pipeline :: "orchestrator \<Rightarrow> string \<Rightarrow> world \<Rightarrow> (exn + envelope) \<times> world" where
  "run_pipeline self output_dir w =
     conduct_research self ''Latest developments in AI research'' output_dir w"


section \<open>Notions used to state the properties\<close>

text \<open>
  The classification as the specification words it: buckets of keywords in a fixed order
  of priority, a keyword matching when it occurs in the query with the case of letters
  ignored, the first matching bucket giving the category and \<open>general\<close> being the default.
\<close>

definition category_buckets :: "(string \<times> string list) list" where
  "category_buckets =
     [(''philosophical'', [''meaning'', ''purpose'', ''philosophy'', ''existence'']),
      (''technical'', [''technology'', ''science'', ''research'']),
      (''historical'', [''history'', ''historical'', ''past''])]"

definition occurs_ignoring_case :: "string \<Rightarrow> string \<Rightarrow> bool" where
  "occurs_ignoring_case keyword query = sublist (py_lower keyword) (py_lower query)"

fun first_matching_bucket :: "(string \<times> string list) list \<Rightarrow> string \<Rightarrow> string" where
  "first_matching_bucket [] query = ''general''"
| "first_matching_bucket ((category, keywords) # rest) query =
     (if list_ex (\<lambda>keyword. occurs_ignoring_case keyword query) keywords then category
      else first_matching_bucket rest query)"

definition report_file :: "orchestrator \<Rightarrow> ppath \<Rightarrow> ppath" where
  \<comment> \<open>The file that \<open>_generate_report\<close> writes for this orchestrator below a directory.\<close>
  "report_file self output_path =
     joinpath output_path (''research_report_'' @ session_id self @ ''.md'')"

text \<open>
  A world to run the pipeline in: an empty working directory \<open>/srv\<close>, no logger
  configured, and a clock that advances by one second per reading. In the second world
  the place of the report is taken by a directory, so that the report cannot be written.
\<close>

definition example_world :: world where
  "example_world =
     \<lparr>cwd = [''srv''], dirs = {[''srv'']}, files = Map.empty, handlers = {},
      clock = (\<lambda>n. \<lparr>year = 2025, month = 1, day = 2, hour = 3, minute = 4, second = n,
                     microsecond = 0\<rparr>),
      ticks = 0\<rparr>"

definition blocked_world :: world where
  "blocked_world =
     example_world
       \<lparr>dirs := {[''srv''], [''srv'', ''research''], [''srv'', ''research'', ''output''],
                 [''srv'', ''research'', ''output'', ''research_report_c9ef13b2.md'']}\<rparr>"

definition example_orchestrator :: orchestrator where
  "example_orchestrator = init ''c9ef13b2-7683-44ab-b389-addc8fddbfe3''"

definition failing_collection :: phases where
  \<comment> \<open>The class's phases with a data collection that raises.\<close>
  "failing_collection =
     own_phases\<lparr>collect_data_m := (\<lambda>research_plan. Inl (Raised ''ConnectionError'' ''source unreachable''))\<rparr>"

definition cancelled_collection :: phases where
  \<comment> \<open>The class's phases with a data collection that is cancelled while it runs.\<close>
  "cancelled_collection =
     own_phases\<lparr>collect_data_m :=
       (\<lambda>research_plan. Inl (Raised_outside_Exception ''CancelledError'' []))\<rparr>"

declare mkdir_parents.simps [simp del]
declare dec_str.simps [simp del]


section \<open>Substring tests and the keyword tables\<close>

lemma py_in_sublist: "py_in needle hay = sublist needle hay"
  by (induction hay) (simp_all add: sublist_Cons_right)

lemma py_any_in_iff: "py_any_in ws t = (\<exists>w\<in>set ws. sublist w t)"
  by (simp add: py_any_in_def list_ex_iff py_in_sublist)

lemma concepts_loop_filter:
  "concepts_loop tbl ql acc = acc @ map fst (filter (\<lambda>(c, kws). py_any_in kws ql) tbl)"
  by (induction tbl ql acc rule: concepts_loop.induct) simp_all

lemma concept_names_distinct: "distinct (map fst concept_keywords)"
  by (simp add: concept_keywords_def)

lemma general_not_concept: "''general'' \<notin> fst ` set concept_keywords"
  by (simp add: concept_keywords_def)

lemma in_filtered_table:
  assumes "distinct (map fst tbl)" and "(c, kws) \<in> set tbl"
  shows "(c \<in> set (map fst (filter (\<lambda>(c, kws). P kws) tbl))) = P kws"
proof
  assume "c \<in> set (map fst (filter (\<lambda>(c, kws). P kws) tbl))"
  then obtain kws' where in_tbl: "(c, kws') \<in> set tbl" and holds: "P kws'"
    by auto
  from assms in_tbl have "kws' = kws"
    by (metis eq_key_imp_eq_value)
  with holds show "P kws" by simp
next
  assume "P kws"
  with assms(2) show "c \<in> set (map fst (filter (\<lambda>(c, kws). P kws) tbl))"
    by force
qed

lemma extract_cases:
  "extract_key_concepts q =
     (let found = map fst (filter (\<lambda>(c, kws). py_any_in kws (py_lower q)) concept_keywords)
      in if found = [] then [''general''] else found)"
  by (simp add: extract_key_concepts_def concepts_loop_filter)

lemma concept_included_iff:
  assumes "(c, kws) \<in> set concept_keywords"
  shows "(c \<in> set (extract_key_concepts q)) = (\<exists>k \<in> set kws. sublist k (py_lower q))"
proof -
  let ?found = "map fst (filter (\<lambda>(c, kws). py_any_in kws (py_lower q)) concept_keywords)"
  have mem: "(c \<in> set ?found) = py_any_in kws (py_lower q)"
    using concept_names_distinct assms by (rule in_filtered_table)
  have ne: "c \<noteq> ''general''"
    using assms general_not_concept by force
  show ?thesis
  proof (cases "?found = []")
    case True
    then have "extract_key_concepts q = [''general'']"
      by (simp add: extract_cases)
    moreover from True mem have "\<not> py_any_in kws (py_lower q)"
      by simp
    ultimately show ?thesis using ne by (simp add: py_any_in_iff)
  next
    case False
    then have "extract_key_concepts q = ?found"
      by (simp add: extract_cases)
    with mem show ?thesis by (simp add: py_any_in_iff)
  qed
qed

lemma no_keyword_general:
  assumes "\<forall>(c, kws) \<in> set concept_keywords. \<forall>k \<in> set kws. \<not> sublist k (py_lower q)"
  shows "extract_key_concepts q = [''general'']"
proof -
  have "filter (\<lambda>(c, kws). py_any_in kws (py_lower q)) concept_keywords = []"
    using assms by (auto simp: filter_empty_conv py_any_in_iff)
  then show ?thesis by (simp add: extract_cases)
qed

lemma determine_research_type_buckets:
  "determine_research_type q = first_matching_bucket category_buckets q"
  by (simp add: determine_research_type_def category_buckets_def py_any_in_def py_in_sublist
      occurs_ignoring_case_def py_lower_def lower_char_def Let_def)


section \<open>Classification of a query\<close>

text \<open>
  Claim C5. For every query the research category is found by matching keywords as
  substrings of the query, ignoring case, against the buckets philosophical, technical and
  historical in this order of priority; the first bucket with a matching keyword gives the
  category and the category is \<open>general\<close> when none matches. The query "What is the meaning
  of life?" is philosophical and its concepts include \<open>meaning\<close> and \<open>life\<close>; the query
  "Latest developments in AI research" is technical.
\<close>

theorem category_by_priority:
  "determine_research_type query = first_matching_bucket category_buckets query
   \<and> determine_research_type ''What is the meaning of life?'' = ''philosophical''
   \<and> ''meaning'' \<in> set (extract_key_concepts ''What is the meaning of life?'')
   \<and> ''life'' \<in> set (extract_key_concepts ''What is the meaning of life?'')
   \<and> determine_research_type ''Latest developments in AI research'' = ''technical''"
proof -
  have "determine_research_type ''What is the meaning of life?'' = ''philosophical''"
    by code_simp
  moreover have "extract_key_concepts ''What is the meaning of life?'' = [''meaning'', ''life'']"
    by code_simp
  moreover have "determine_research_type ''Latest developments in AI research'' = ''technical''"
    by code_simp
  ultimately show ?thesis
    by (simp add: determine_research_type_buckets)
qed

text \<open>
  Claim C8. For every query the list of key concepts of the plan is not empty: a concept
  of the table is in the list exactly when one of its keywords is a substring of the
  query in lower case, and when no keyword of any concept occurs the list is
  \<open>['general']\<close>.
\<close>

theorem key_concepts_by_keyword:
  "key_concepts (analyze_query query) = extract_key_concepts query
   \<and> extract_key_concepts query \<noteq> []
   \<and> (\<forall>(concept, keywords) \<in> set concept_keywords.
        (concept \<in> set (extract_key_concepts query))
         = (\<exists>keyword \<in> set keywords. sublist keyword (py_lower query)))
   \<and> ((\<forall>(concept, keywords) \<in> set concept_keywords.
         \<forall>keyword \<in> set keywords. \<not> sublist keyword (py_lower query))
        \<longrightarrow> extract_key_concepts query = [''general''])"
proof -
  have "extract_key_concepts query \<noteq> []"
    by (simp add: extract_key_concepts_def Let_def)
  moreover have "\<forall>(concept, keywords) \<in> set concept_keywords.
        (concept \<in> set (extract_key_concepts query))
         = (\<exists>keyword \<in> set keywords. sublist keyword (py_lower query))"
    using concept_included_iff by blast
  ultimately show ?thesis
    using no_keyword_general by (simp add: analyze_query_def)
qed

theorem key_concepts_by_keyword_witness:
  "list_all (\<lambda>(concept, keywords).
      list_all (\<lambda>keyword. \<not> sublist keyword (py_lower ''Hello, world'')) keywords)
     concept_keywords
   \<and> extract_key_concepts ''Hello, world'' = [''general'']
   \<and> (''science'', [''science'', ''scientific'', ''research'']) \<in> set concept_keywords
   \<and> sublist ''research'' (py_lower ''Latest developments in AI research'')
   \<and> ''science'' \<in> set (extract_key_concepts ''Latest developments in AI research'')"
proof -
  have none: "list_all (\<lambda>(concept, keywords).
      list_all (\<lambda>keyword. \<not> sublist keyword (py_lower ''Hello, world'')) keywords)
     concept_keywords"
    by code_simp
  then have none': "\<forall>(concept, keywords) \<in> set concept_keywords.
      \<forall>keyword \<in> set keywords. \<not> sublist keyword (py_lower ''Hello, world'')"
    by (simp add: list_all_iff case_prod_unfold)
  have entry: "(''science'', [''science'', ''scientific'', ''research'']) \<in> set concept_keywords"
    by (simp add: concept_keywords_def)
  have occurs: "sublist ''research'' (py_lower ''Latest developments in AI research'')"
    by code_simp
  from key_concepts_by_keyword [of "''Hello, world''"] none'
  have "extract_key_concepts ''Hello, world'' = [''general'']"
    by blast
  moreover from key_concepts_by_keyword [of "''Latest developments in AI research''"] entry occurs
  have "''science'' \<in> set (extract_key_concepts ''Latest developments in AI research'')"
    by fastforce
  ultimately show ?thesis
    using none entry occurs by blast
qed


section \<open>The simulated phases\<close>

text \<open>
  Claim C1, as the specification states it: without a configured connector the data
  collection returns an explicitly empty placeholder, zero sources found for every plan.
  The code has no connector at all and returns fixed counts; the counterexample is the
  plan of a query, for which fifteen sources are reported.
\<close>

theorem collect_data_not_empty:
  "sources_found (collect_data (analyze_query ''What is the meaning of life?'')) \<noteq> 0"
  by (simp add: collect_data_def)

text \<open>
  Claim C1, amended. For every research plan the data collection returns the same
  simulated figures: 15 sources found, 8 academic papers, 5 web articles, 2 books and the
  quality score 0.85; only the summary varies, and it quotes the query of the plan. The
  phase does not raise.
\<close>

theorem collect_data_simulated:
  "collect_data_m own_phases research_plan = Inr (collect_data research_plan)
   \<and> sources_found (collect_data research_plan) = 15
   \<and> academic_papers (collect_data research_plan) = 8
   \<and> web_articles (collect_data research_plan) = 5
   \<and> books (collect_data research_plan) = 2
   \<and> quality_score (collect_data research_plan) = Float_repr ''0.85''
   \<and> data_summary (collect_data research_plan)
       = ''Collected comprehensive data on: '' @ plan_query research_plan"
  by (simp add: own_phases_def collect_data_def)

text \<open>
  Claim C9. The analysis phase is a constant function: any two collected data give the
  same analysis results, with the same four key findings, the themes philosophy, meaning,
  purpose, existence and the confidence score 0.78. The research plan is not among its
  arguments.
\<close>

theorem analyze_data_constant:
  "analyze_data collected = analyze_data collected'
   \<and> analyze_data_m own_phases collected = analyze_data_m own_phases collected'
   \<and> key_findings (analyze_data collected) =
       [''Multiple philosophical perspectives exist on this topic'',
        ''Historical context provides important framework'',
        ''Modern interpretations vary significantly'',
        ''Practical applications are diverse'']
   \<and> themes (analyze_data collected) = [''philosophy'', ''meaning'', ''purpose'', ''existence'']
   \<and> confidence_score (analyze_data collected) = Float_repr ''0.78''"
  by (simp add: own_phases_def analyze_data_def)


section \<open>The file system\<close>

lemma now_fields [simp]:
  "cwd (snd (now w)) = cwd w" "dirs (snd (now w)) = dirs w" "files (snd (now w)) = files w"
  "handlers (snd (now w)) = handlers w" "clock (snd (now w)) = clock w"
  "ticks (snd (now w)) = Suc (ticks w)" "fst (now w) = clock w (ticks w)"
  by (simp_all add: now_def)

lemma node_cong: "cwd w' = cwd w \<Longrightarrow> node w' p = node w p"
  by (simp add: node_def)

lemma walk_mono:
  "walk w at cs = None \<Longrightarrow> dirs w \<subseteq> dirs w' \<Longrightarrow> walk w' at cs = None"
  by (induction cs arbitrary: at) (auto simp: is_dir_def split: if_splits)

lemma lookup_parent_mono:
  "lookup_parent w k = None \<Longrightarrow> dirs w \<subseteq> dirs w' \<Longrightarrow> lookup_parent w' k = None"
  by (auto simp: lookup_parent_def intro: walk_mono)

lemma os_is_dir_mono:
  "os_is_dir w k \<Longrightarrow> dirs w \<subseteq> dirs w' \<Longrightarrow> os_is_dir w' k"
  by (auto simp: os_is_dir_def is_dir_def intro: lookup_parent_mono)

lemma os_mkdir_Inr:
  assumes "os_mkdir w k = Inr w'"
  shows "w' = w\<lparr>dirs := insert k (dirs w)\<rparr>" and "os_is_dir w' k"
proof -
  from assms have lp: "lookup_parent w k = None" and w': "w' = w\<lparr>dirs := insert k (dirs w)\<rparr>"
    by (auto simp: os_mkdir_def split: option.splits if_splits)
  show "w' = w\<lparr>dirs := insert k (dirs w)\<rparr>" by (rule w')
  have "dirs w \<subseteq> dirs w'" using w' by auto
  with lp have "lookup_parent w' k = None" by (rule lookup_parent_mono)
  then show "os_is_dir w' k" using w' by (simp add: os_is_dir_def is_dir_def)
qed

lemma os_mkdir_existing: "os_is_dir w k \<Longrightarrow> os_mkdir w k = Inl EEXIST"
  by (simp add: os_is_dir_def os_mkdir_def)

lemma mkdir_exist_ok_frame:
  assumes "mkdir_exist_ok w p = (r, w')"
  shows "files w' = files w \<and> handlers w' = handlers w \<and> cwd w' = cwd w \<and> clock w' = clock w
         \<and> ticks w' = ticks w \<and> dirs w \<subseteq> dirs w'"
  using assms
  by (auto simp: mkdir_exist_ok_def dest!: os_mkdir_Inr(1) split: sum.splits os_errno.splits if_splits)

lemma mkdir_exist_ok_Inr:
  assumes "mkdir_exist_ok w p = (Inr u, w')"
  shows "os_is_dir w' (node w' p)"
proof (cases "os_mkdir w (node w p)")
  case (Inr w1)
  with assms have "w' = w1" by (simp add: mkdir_exist_ok_def)
  moreover from Inr have "os_is_dir w1 (node w p)" by (rule os_mkdir_Inr(2))
  moreover from Inr have "cwd w1 = cwd w" by (auto dest: os_mkdir_Inr(1))
  ultimately show ?thesis by (simp add: node_cong[of w1 w])
next
  case (Inl e)
  with assms show ?thesis
    by (cases e) (auto simp: mkdir_exist_ok_def split: if_splits)
qed

lemma mkdir_parents_frame:
  "mkdir_parents w p = (r, w') \<Longrightarrow>
     files w' = files w \<and> handlers w' = handlers w \<and> cwd w' = cwd w \<and> clock w' = clock w
     \<and> ticks w' = ticks w \<and> dirs w \<subseteq> dirs w'"
proof (induction w p arbitrary: r w' rule: mkdir_parents.induct)
  case (1 w p)
  show ?case
  proof (cases "os_mkdir w (node w p)")
    case (Inr w1)
    with "1.prems" have "w' = w1" by (simp add: mkdir_parents.simps)
    with Inr show ?thesis by (auto dest: os_mkdir_Inr(1))
  next
    case (Inl e)
    show ?thesis
    proof (cases "e = ENOENT \<and> parent p \<noteq> p")
      case True
      obtain r1 w1 where rec: "mkdir_parents w (parent p) = (r1, w1)"
        by (cases "mkdir_parents w (parent p)")
      from True Inl rec have ih: "files w1 = files w \<and> handlers w1 = handlers w \<and> cwd w1 = cwd w
          \<and> clock w1 = clock w \<and> ticks w1 = ticks w \<and> dirs w \<subseteq> dirs w1"
        using "1.IH" by blast
      show ?thesis
      proof (cases r1)
        case (Inl e1)
        with True \<open>os_mkdir w (node w p) = Inl e\<close> rec "1.prems" have "w' = w1"
          by (simp add: mkdir_parents.simps)
        with ih show ?thesis by simp
      next
        case (Inr u)
        with True \<open>os_mkdir w (node w p) = Inl e\<close> rec "1.prems"
        have "mkdir_exist_ok w1 p = (r, w')"
          by (simp add: mkdir_parents.simps)
        from mkdir_exist_ok_frame[OF this] ih show ?thesis by auto
      qed
    next
      case False
      with Inl "1.prems" have "w' = w"
        by (cases e) (auto simp: mkdir_parents.simps split: if_splits)
      then show ?thesis by simp
    qed
  qed
qed

lemma mkdir_parents_Inr:
  "mkdir_parents w p = (Inr u, w') \<Longrightarrow> os_is_dir w' (node w' p)"
proof (cases "os_mkdir w (node w p)")
  case (Inr w1)
  assume a: "mkdir_parents w p = (Inr u, w')"
  with Inr have "w' = w1" by (simp add: mkdir_parents.simps)
  moreover from Inr have "os_is_dir w1 (node w p)" by (rule os_mkdir_Inr(2))
  moreover from Inr have "cwd w1 = cwd w" by (auto dest: os_mkdir_Inr(1))
  ultimately show ?thesis by (simp add: node_cong[of w1 w])
next
  case (Inl e)
  assume a: "mkdir_parents w p = (Inr u, w')"
  show ?thesis
  proof (cases "e = ENOENT \<and> parent p \<noteq> p")
    case True
    obtain r1 w1 where rec: "mkdir_parents w (parent p) = (r1, w1)"
      by (cases "mkdir_parents w (parent p)")
    with True Inl a have "mkdir_exist_ok w1 p = (Inr u, w')"
      by (cases r1) (simp_all add: mkdir_parents.simps)
    then show ?thesis by (rule mkdir_exist_ok_Inr)
  next
    case False
    with Inl a show ?thesis
      by (cases e) (auto simp: mkdir_parents.simps split: if_splits)
  qed
qed

lemma mkdir_parents_existing:
  "os_is_dir w (node w p) \<Longrightarrow> mkdir_parents w p = (Inr (), w)"
  by (simp add: mkdir_parents.simps os_mkdir_existing)


section \<open>Writing the report\<close>

lemma meaning_of_life_report_world:
  "snd (generate_meaning_of_life_report self analysis w) = snd (now w)"
  by (simp add: generate_meaning_of_life_report_def split_def)

lemma generic_report_world:
  "snd (generate_generic_report self query analysis w) = snd (now w)"
  by (simp add: generate_generic_report_def split_def)

lemma generate_report_unfold:
  "generate_report self query analysis output_path w =
     (let report_content =
            fst (if py_in ''meaning of life'' (py_lower query)
                 then generate_meaning_of_life_report self analysis w
                 else generate_generic_report self query analysis w);
          w1 = snd (now w)
      in (case os_open w1 (node w1 (report_file self output_path)) of
            Some e \<Rightarrow> (Inl (OSError e (path_str (report_file self output_path))), w1)
          | None \<Rightarrow>
              (Inr \<lparr>report_path = path_str (report_file self output_path),
                    summary = ''Research report generated successfully'',
                    word_count = int (length (py_split report_content)),
                    sections = 6\<rparr>,
               w1\<lparr>files := (files w1)(node w1 (report_file self output_path) \<mapsto> report_content)\<rparr>)))"
proof (cases "py_in ''meaning of life'' (py_lower query)")
  case True
  then show ?thesis
    using meaning_of_life_report_world [of self analysis w]
    by (cases "generate_meaning_of_life_report self analysis w")
      (simp add: generate_report_def write_text_def report_file_def Let_def
        split: option.splits)
next
  case False
  then show ?thesis
    using generic_report_world [of self query analysis w]
    by (cases "generate_generic_report self query analysis w")
      (simp add: generate_report_def write_text_def report_file_def Let_def
        split: option.splits)
qed

lemma generate_report_frame:
  assumes "generate_report self query analysis output_path w = (r, w')"
  shows "dirs w' = dirs w \<and> handlers w' = handlers w \<and> cwd w' = cwd w \<and> clock w' = clock w"
  using assms
  by (auto simp: generate_report_unfold Let_def split: option.splits)

lemma generate_report_Inl:
  assumes "generate_report self query analysis output_path w = (Inl e, w')"
  shows "files w' = files w"
  using assms
  by (auto simp: generate_report_unfold Let_def split: option.splits)

lemma returned_value: "\<not> isl (fst r) \<Longrightarrow> r = (Inr (projr (fst r)), snd r)"
  by (cases r, cases "fst r") simp_all

text \<open>
  Claim C7. Whenever the report phase succeeds, the word count in the dictionary it
  returns is the number of whitespace-delimited words of the very content that it wrote to
  the report file, the file whose path the dictionary reports.
\<close>

theorem word_count_of_written_report:
  assumes "generate_report self query analysis output_path w = (Inr info, w')"
  shows "\<exists>content.
           files w' (node w' (report_file self output_path)) = Some content
           \<and> report_path info = path_str (report_file self output_path)
           \<and> word_count info = int (length (py_split content))"
  using assms
  by (auto simp: generate_report_unfold Let_def node_def split: option.splits)

theorem word_count_of_written_report_witness:
  "\<not> isl (fst (generate_report example_orchestrator ''Latest developments in AI research''
             (analyze_data (collect_data (analyze_query ''Latest developments in AI research'')))
             (Path ''.'') example_world))
   \<and> (\<exists>content.
         files (snd (generate_report example_orchestrator ''Latest developments in AI research''
                  (analyze_data (collect_data (analyze_query ''Latest developments in AI research'')))
                  (Path ''.'') example_world))
           [''srv'', ''research_report_c9ef13b2.md''] = Some content
         \<and> report_path (projr (fst (generate_report example_orchestrator
                  ''Latest developments in AI research''
                  (analyze_data (collect_data (analyze_query ''Latest developments in AI research'')))
                  (Path ''.'') example_world)))
             = ''research_report_c9ef13b2.md''
         \<and> word_count (projr (fst (generate_report example_orchestrator
                  ''Latest developments in AI research''
                  (analyze_data (collect_data (analyze_query ''Latest developments in AI research'')))
                  (Path ''.'') example_world)))
             = int (length (py_split content)))"
proof -
  let ?run = "generate_report example_orchestrator ''Latest developments in AI research''
             (analyze_data (collect_data (analyze_query ''Latest developments in AI research'')))
             (Path ''.'') example_world"
  have "os_open (snd (now example_world))
          (node (snd (now example_world)) (report_file example_orchestrator (Path ''.''))) = None"
    by code_simp
  then have ok: "\<not> isl (fst ?run)"
    by (simp add: generate_report_unfold Let_def)
  then have run: "?run = (Inr (projr (fst ?run)), snd ?run)"
    by (rule returned_value)
  have target: "report_file example_orchestrator (Path ''.'')
               = \<lparr>root = [], parts = [''research_report_c9ef13b2.md'']\<rparr>"
    by code_simp
  have "cwd (snd ?run) = cwd example_world"
    using generate_report_frame [OF run] by (rule conjunct2 [THEN conjunct2, THEN conjunct1])
  also have "\<dots> = [''srv'']"
    by (simp add: example_world_def)
  finally have place: "node (snd ?run) (report_file example_orchestrator (Path ''.''))
                = [''srv'', ''research_report_c9ef13b2.md'']"
    by (simp only: node_def target ppath.simps) simp
  have name: "path_str (report_file example_orchestrator (Path ''.''))
                = ''research_report_c9ef13b2.md''"
    by code_simp
  from word_count_of_written_report [OF run]
  obtain content where
    "files (snd ?run) (node (snd ?run) (report_file example_orchestrator (Path ''.''))) = Some content"
    "report_path (projr (fst ?run)) = path_str (report_file example_orchestrator (Path ''.''))"
    "word_count (projr (fst ?run)) = int (length (py_split content))"
    by blast
  then have "files (snd ?run) [''srv'', ''research_report_c9ef13b2.md''] = Some content
     \<and> report_path (projr (fst ?run)) = ''research_report_c9ef13b2.md''
     \<and> word_count (projr (fst ?run)) = int (length (py_split content))"
    by (simp only: place name) 
  then have "\<exists>content. files (snd ?run) [''srv'', ''research_report_c9ef13b2.md''] = Some content
     \<and> report_path (projr (fst ?run)) = ''research_report_c9ef13b2.md''
     \<and> word_count (projr (fst ?run)) = int (length (py_split content))"
    by (rule exI)
  with ok show ?thesis
    by (rule conjI)
qed

text \<open>
  Claim C10. Whenever the report phase succeeds, the number of sections in the dictionary
  it returns is the constant 6, whichever template was chosen and whatever the content
  holds.
\<close>

theorem sections_always_six:
  assumes "generate_report self query analysis output_path w = (Inr info, w')"
  shows "sections info = 6"
  using assms
  by (auto simp: generate_report_unfold Let_def split: option.splits)


theorem sections_always_six_witness:
  "\<not> isl (fst (generate_report example_orchestrator ''What is the meaning of life?''
             (analyze_data (collect_data (analyze_query ''What is the meaning of life?'')))
             (Path ''.'') example_world))
   \<and> sections (projr (fst (generate_report example_orchestrator ''What is the meaning of life?''
             (analyze_data (collect_data (analyze_query ''What is the meaning of life?'')))
             (Path ''.'') example_world))) = 6"
proof -
  let ?run = "generate_report example_orchestrator ''What is the meaning of life?''
             (analyze_data (collect_data (analyze_query ''What is the meaning of life?'')))
             (Path ''.'') example_world"
  have "os_open (snd (now example_world))
          (node (snd (now example_world)) (report_file example_orchestrator (Path ''.''))) = None"
    by code_simp
  then have ok: "\<not> isl (fst ?run)"
    by (simp add: generate_report_unfold Let_def)
  then have run: "?run = (Inr (projr (fst ?run)), snd ?run)"
    by (rule returned_value)
  have six: "sections (projr (fst ?run)) = 6"
    by (rule sections_always_six [OF run])
  from ok six show ?thesis
    by (rule conjI)
qed


section \<open>Queries that the specification would reject\<close>

text \<open>
  Claim C2, as the specification states it: the analysis of the query fails with
  \<open>InvalidQueryError\<close> exactly when the query is empty or consists of whitespace, before any
  later phase runs. The code never rejects a query: a query of one blank and the empty
  query are both analysed, and a run on the empty query goes through all four phases and
  ends as completed.
\<close>

theorem blank_query_not_rejected:
  "list_all is_space '' ''
   \<and> analyze_query_m own_phases '' '' = Inr (analyze_query '' '')
   \<and> analyze_query_m own_phases [] = Inr (analyze_query [])
   \<and> (case fst (conduct_research example_orchestrator [] ''research/output'' example_world) of
         Inl e \<Rightarrow> None
       | Inr results \<Rightarrow> map_of results ''status'') = Some ''completed''"
proof -
  have "list_all is_space '' ''"
    by code_simp
  moreover have
    "(case fst (conduct_research example_orchestrator [] ''research/output'' example_world) of
         Inl e \<Rightarrow> None
       | Inr results \<Rightarrow> map_of results ''status'') = Some ''completed''"
    by code_simp
  ultimately show ?thesis
    by (simp add: own_phases_def)
qed

text \<open>
  Claim C2, amended. The analysis of the query has no failure mode at all: for every
  query, the empty and the blank ones included, it returns a plan that carries the query
  unchanged, with its category, its key concepts, four search strategies and the fixed
  list of expected sources. No query is rejected before the phases run.
\<close>

theorem analyze_query_total:
  "analyze_query_m own_phases query = Inr (analyze_query query)
   \<and> plan_query (analyze_query query) = query
   \<and> research_type (analyze_query query) = determine_research_type query
   \<and> key_concepts (analyze_query query) = extract_key_concepts query
   \<and> length (search_strategies (analyze_query query)) = 4
   \<and> expected_sources (analyze_query query) = [''academic'', ''web'', ''books'', ''reports'']"
  by (simp add: own_phases_def analyze_query_def generate_search_strategies_def)


section \<open>Where the report and the log are written\<close>

lemma split_on_hd:
  "split_on sep cur s \<noteq> [] \<and> hd (split_on sep cur s) = rev cur @ takeWhile (\<lambda>c. c \<noteq> sep) s"
  by (induction s arbitrary: cur) simp_all

lemma Path_relative: "c \<noteq> CHR ''/'' \<Longrightarrow> root (Path (c # cs)) = []"
  by (simp add: Path_def)

lemma Path_logs: "Path ''logs'' = \<lparr>root = [], parts = [''logs'']\<rparr>"
  by (simp add: Path_def)

lemma report_name_parts:
  "\<exists>h rest. parts (Path (''research_report_'' @ sid @ ''.md'')) = h # rest \<and> h \<noteq> ''logs''"
proof -
  let ?name = "''research_report_'' @ sid @ ''.md''"
  let ?h = "''research_report_'' @ takeWhile (\<lambda>c. c \<noteq> CHR ''/'') (sid @ ''.md'')"
  have "split_on CHR ''/'' [] ?name \<noteq> []"
    and "hd (split_on CHR ''/'' [] ?name) = takeWhile (\<lambda>c. c \<noteq> CHR ''/'') ?name"
    using split_on_hd [of "CHR ''/''" "[]" ?name] by simp_all
  then obtain rest where
    sp: "split_on CHR ''/'' [] ?name = takeWhile (\<lambda>c. c \<noteq> CHR ''/'') ?name # rest"
    by (cases "split_on CHR ''/'' [] ?name") simp_all
  have tw: "takeWhile (\<lambda>c. c \<noteq> CHR ''/'') ?name = ?h"
    by simp
  have "parts (Path ?name) = ?h # filter (\<lambda>c. c \<noteq> [] \<and> c \<noteq> ''.'') rest"
    unfolding Path_def using sp tw by simp
  moreover have "?h \<noteq> ''logs''"
    by simp
  ultimately show ?thesis by blast
qed

lemma report_file_node:
  "\<exists>h rest. node w (report_file self p) = node w p @ h # rest \<and> h \<noteq> ''logs''"
proof -
  let ?name = "''research_report_'' @ session_id self @ ''.md''"
  obtain h rest where hr: "parts (Path ?name) = h # rest" "h \<noteq> ''logs''"
    using report_name_parts by blast
  have "root (Path ?name) = []"
    by (simp add: Path_relative)
  then have "report_file self p = \<lparr>root = root p, parts = parts p @ h # rest\<rparr>"
    using hr by (simp add: report_file_def joinpath_def Let_def)
  then have "node w (report_file self p) = node w p @ h # rest"
    by (simp add: node_def)
  with hr show ?thesis by blast
qed

lemma log_file_node:
  "\<exists>rest. node w (joinpath (joinpath p ''logs'') (''session_'' @ tail)) = node w p @ ''logs'' # rest"
proof -
  have "root (Path (''session_'' @ tail)) = []"
    by (simp add: Path_relative)
  then show ?thesis
    by (simp add: joinpath_def Path_logs node_def Let_def)
qed

lemma report_not_below_logs:
  "node w (report_file self p) \<noteq> node w p @ ''logs'' # rest"
  using report_file_node [of w self p] by auto


section \<open>Opening a session\<close>

lemma create_session_logger_known:
  assumes "''baker_street.session.'' @ sid \<in> handlers w"
  shows "create_session_logger sid output_dir w = (Inr (), snd (now w))"
  using assms by (simp add: create_session_logger_def split_def Let_def)

lemma FileHandler_frame:
  assumes "FileHandler w p = (r, w')"
  shows "cwd w' = cwd w \<and> dirs w' = dirs w \<and> handlers w' = handlers w \<and> clock w' = clock w
         \<and> (\<forall>k. k \<noteq> node w p \<longrightarrow> files w' k = files w k)"
  using assms by (auto simp: FileHandler_def split: option.splits if_splits)

lemma create_session_logger_frame:
  assumes "create_session_logger sid output_dir w = (r, w')"
  shows "cwd w' = cwd w \<and> dirs w \<subseteq> dirs w' \<and> handlers w \<subseteq> handlers w'
         \<and> (\<forall>k. files w' k \<noteq> files w k \<longrightarrow> (\<exists>rest. k = node w (Path output_dir) @ ''logs'' # rest))"
proof (cases "''baker_street.session.'' @ sid \<in> handlers w")
  case True
  with assms have "w' = snd (now w)"
    by (simp add: create_session_logger_known)
  then show ?thesis by simp
next
  case False
  let ?w1 = "snd (now w)"
  let ?log = "joinpath (joinpath (Path output_dir) ''logs'')
                (''session_'' @ sid @ ''_'' @ strftime_log (fst (now w)) @ ''.log'')"
  obtain r2 w2 where mk: "mkdir_parents ?w1 (parent ?log) = (r2, w2)"
    by (cases "mkdir_parents ?w1 (parent ?log)")
  from mkdir_parents_frame [OF mk]
  have f2: "files w2 = files w" "cwd w2 = cwd w" "dirs w \<subseteq> dirs w2" "handlers w2 = handlers w"
    by simp_all
  obtain r3 w3 where fh: "FileHandler w2 ?log = (r3, w3)"
    by (cases "FileHandler w2 ?log")
  from FileHandler_frame [OF fh]
  have f3: "cwd w3 = cwd w2" "dirs w3 = dirs w2" "handlers w3 = handlers w2"
    and f3': "\<And>k. k \<noteq> node w2 ?log \<Longrightarrow> files w3 k = files w2 k"
    by simp_all
  obtain rest where "node w2 ?log = node w2 (Path output_dir) @ ''logs'' # rest"
    using log_file_node by blast
  with f2 have place: "node w2 ?log = node w (Path output_dir) @ ''logs'' # rest"
    by (simp add: node_cong [of w2 w])
  have cases: "w' = w2 \<or> w' = w3
      \<or> w' = w3\<lparr>handlers := insert (''baker_street.session.'' @ sid) (handlers w3)\<rparr>"
    using False mk fh assms
    by (cases r2; cases r3) (simp_all add: create_session_logger_def split_def Let_def)
  have c: "cwd w' = cwd w"
    using cases f2 f3 by auto
  have d: "dirs w \<subseteq> dirs w'"
    using cases f2 f3 by auto
  have h: "handlers w \<subseteq> handlers w'"
    using cases f2 f3 by auto
  have "files w' = files w2 \<or> files w' = files w3"
    using cases by auto
  then have f: "\<And>k. files w' k \<noteq> files w k \<Longrightarrow> k = node w2 ?log"
    using f2(1) f3' by metis
  show ?thesis
    using c d h f place by blast
qed

lemma create_session_logger_Inr:
  assumes "create_session_logger sid output_dir w = (Inr u, w')"
  shows "''baker_street.session.'' @ sid \<in> handlers w'"
proof (cases "''baker_street.session.'' @ sid \<in> handlers w")
  case True
  with assms have "w' = snd (now w)"
    by (simp add: create_session_logger_known)
  with True show ?thesis by simp
next
  case False
  let ?w1 = "snd (now w)"
  let ?log = "joinpath (joinpath (Path output_dir) ''logs'')
                (''session_'' @ sid @ ''_'' @ strftime_log (fst (now w)) @ ''.log'')"
  obtain r2 w2 where mk: "mkdir_parents ?w1 (parent ?log) = (r2, w2)"
    by (cases "mkdir_parents ?w1 (parent ?log)")
  obtain r3 w3 where fh: "FileHandler w2 ?log = (r3, w3)"
    by (cases "FileHandler w2 ?log")
  from False mk fh assms
  have "w' = w3\<lparr>handlers := insert (''baker_street.session.'' @ sid) (handlers w3)\<rparr>"
    by (cases r2; cases r3) (simp_all add: create_session_logger_def split_def Let_def)
  then show ?thesis by simp
qed

lemma open_session_Inr:
  assumes "open_session self output_dir w = (Inr output_path, w2)"
  shows "output_path = Path output_dir"
    and "os_is_dir w2 (node w2 (Path output_dir))"
    and "''baker_street.session.'' @ session_id self \<in> handlers w2"
    and "cwd w2 = cwd w"
    and "\<And>k. files w2 k \<noteq> files w k \<Longrightarrow> \<exists>rest. k = node w (Path output_dir) @ ''logs'' # rest"
proof -
  obtain r1 w1 where csl: "create_session_logger (session_id self) output_dir w = (r1, w1)"
    by (cases "create_session_logger (session_id self) output_dir w")
  obtain r2 w2' where mk: "mkdir_parents w1 (Path output_dir) = (r2, w2')"
    by (cases "mkdir_parents w1 (Path output_dir)")
  from assms csl mk have r1: "r1 = Inr ()" and r2: "r2 = Inr ()" and w2: "w2' = w2"
    and p: "output_path = Path output_dir"
    by (cases r1; cases r2; simp add: open_session_def Let_def)+
  show "output_path = Path output_dir" by (rule p)
  from mk r2 w2 show "os_is_dir w2 (node w2 (Path output_dir))"
    using mkdir_parents_Inr by blast
  from mkdir_parents_frame [OF mk] w2
  have f2: "files w2 = files w1" "handlers w2 = handlers w1" "cwd w2 = cwd w1"
    by simp_all
  from csl r1 have "''baker_street.session.'' @ session_id self \<in> handlers w1"
    using create_session_logger_Inr by blast
  with f2 show "''baker_street.session.'' @ session_id self \<in> handlers w2"
    by simp
  from create_session_logger_frame [OF csl] f2 show "cwd w2 = cwd w"
    by simp
  fix k assume "files w2 k \<noteq> files w k"
  with create_session_logger_frame [OF csl] f2
  show "\<exists>rest. k = node w (Path output_dir) @ ''logs'' # rest"
    by simp
qed

lemma open_session_again:
  assumes "''baker_street.session.'' @ session_id self \<in> handlers w"
    and "os_is_dir w (node w (Path output_dir))"
  shows "open_session self output_dir w = (Inr (Path output_dir), snd (now w))"
proof -
  have "dirs w \<subseteq> dirs (snd (now w))" by simp
  with assms(2) have "os_is_dir (snd (now w)) (node w (Path output_dir))"
    by (rule os_is_dir_mono)
  moreover have "node (snd (now w)) (Path output_dir) = node w (Path output_dir)"
    by (simp add: node_def)
  ultimately have "mkdir_parents (snd (now w)) (Path output_dir) = (Inr (), snd (now w))"
    by (simp add: mkdir_parents_existing)
  then show ?thesis
    using assms(1) by (simp add: open_session_def create_session_logger_known Let_def)
qed


section \<open>The run of the pipeline\<close>

lemma try_block_own_frame:
  assumes "try_block own_phases self query output_path w = (r, w')"
  shows "dirs w' = dirs w \<and> handlers w' = handlers w \<and> cwd w' = cwd w"
proof -
  let ?analysis = "analyze_data (collect_data (analyze_query query))"
  obtain r1 w1 where gen: "generate_report self query ?analysis output_path w = (r1, w1)"
    by (cases "generate_report self query ?analysis output_path w")
  from generate_report_frame [OF gen]
  have f: "dirs w1 = dirs w" "handlers w1 = handlers w" "cwd w1 = cwd w"
    by simp_all
  from assms gen have "w' = w1 \<or> w' = snd (now w1)"
    by (cases r1) (simp_all add: try_block_def own_phases_def split_def Let_def)
  with f show ?thesis by auto
qed

lemma try_block_collect_fails:
  assumes "analyze_query_m ph query = Inr research_plan"
    and "collect_data_m ph research_plan = Inl e"
  shows "try_block ph self query output_path w = (Inl e, w)"
  using assms by (simp add: try_block_def)

lemma try_block_keys:
  assumes "try_block ph self query output_path w = (Inr results, w')"
  shows "map fst results = [''session_id'', ''query'', ''timestamp'', ''output_dir'', ''summary'',
            ''report_path'', ''status'']
         \<and> map_of results ''status'' = Some ''completed''
         \<and> map_of results ''session_id'' = Some (session_id self)
         \<and> map_of results ''query'' = Some query"
  using assms
  by (auto simp: try_block_def split_def Let_def split: sum.splits)

lemma try_block_own_Inl:
  assumes "try_block own_phases self query output_path w = (Inl e, w')"
  shows "is_Exception e"
proof -
  let ?analysis = "analyze_data (collect_data (analyze_query query))"
  obtain r1 w1 where gen: "generate_report self query ?analysis output_path w = (r1, w1)"
    by (cases "generate_report self query ?analysis output_path w")
  from assms gen have "r1 = Inl e"
    by (cases r1) (simp_all add: try_block_def own_phases_def split_def Let_def)
  with gen show ?thesis
    by (auto simp: generate_report_unfold Let_def split: option.splits)
qed

lemma conduct_research_via_opened:
  assumes "open_session self output_dir w = (Inr output_path, w2)"
  shows "conduct_research_via ph self query output_dir w =
           (case try_block ph self query output_path w2 of
              (Inr results, w3) \<Rightarrow> (Inr results, w3)
            | (Inl e, w3) \<Rightarrow>
                if is_Exception e
                then (Inr [(''session_id'', session_id self), (''query'', query),
                           (''timestamp'', isoformat (fst (now w3))), (''error'', exn_str e),
                           (''status'', ''failed'')], snd (now w3))
                else (Inl e, w3))"
  using assms
  by (simp add: conduct_research_via_def split_def Let_def split: sum.splits)

lemma conduct_research_via_not_opened:
  assumes "open_session self output_dir w = (Inl e, w2)"
  shows "conduct_research_via ph self query output_dir w = (Inl e, w2)"
  using assms by (simp add: conduct_research_via_def)

lemma returned_results:
  assumes "conduct_research_via ph self query output_dir w = (Inr results, w')"
  shows "map_of results ''session_id'' = Some (session_id self)
         \<and> map_of results ''query'' = Some query
         \<and> (map_of results ''status'' = Some ''completed''
              \<and> map fst results = [''session_id'', ''query'', ''timestamp'', ''output_dir'',
                                     ''summary'', ''report_path'', ''status'']
            \<or> map_of results ''status'' = Some ''failed''
              \<and> map fst results = [''session_id'', ''query'', ''timestamp'', ''error'', ''status''])"
proof (cases "open_session self output_dir w")
  case (Pair r w2)
  show ?thesis
  proof (cases r)
    case (Inl e)
    with Pair assms show ?thesis
      by (simp add: conduct_research_via_not_opened)
  next
    case (Inr output_path)
    obtain r3 w3 where tb: "try_block ph self query output_path w2 = (r3, w3)"
      by (cases "try_block ph self query output_path w2")
    show ?thesis
    proof (cases r3)
      case (Inl e)
      with Pair Inr tb assms
      have "results = [(''session_id'', session_id self), (''query'', query),
                      (''timestamp'', isoformat (fst (now w3))), (''error'', exn_str e),
                      (''status'', ''failed'')]"
        by (cases "is_Exception e") (simp_all add: conduct_research_via_opened)
      then show ?thesis by simp
    next
      case (Inr results')
      with Pair \<open>r = Inr output_path\<close> tb assms have "results = results'"
        by (simp add: conduct_research_via_opened)
      with Inr tb try_block_keys [of ph self query output_path w2 results w3]
      show ?thesis by simp
    qed
  qed
qed

lemma second_opening_succeeds:
  assumes "conduct_research self query output_dir w = (Inr results, w')"
  shows "\<exists>results' w''. conduct_research self query' output_dir w' = (Inr results', w'')"
proof -
  obtain r0 w2 where op: "open_session self output_dir w = (r0, w2)"
    by (cases "open_session self output_dir w")
  from assms op obtain output_path where r0: "r0 = Inr output_path"
    by (cases r0) (simp_all add: conduct_research_def conduct_research_via_not_opened)
  note opened = op [unfolded r0]
  obtain r3 w3 where tb: "try_block own_phases self query output_path w2 = (r3, w3)"
    by (cases "try_block own_phases self query output_path w2")
  from try_block_own_frame [OF tb]
  have f3: "dirs w3 = dirs w2" "handlers w3 = handlers w2" "cwd w3 = cwd w2"
    by simp_all
  have "w' = w3 \<or> w' = snd (now w3)"
  proof (cases r3)
    case (Inl e)
    with tb have "is_Exception e"
      by (auto dest: try_block_own_Inl)
    with Inl assms opened tb show ?thesis
      by (simp add: conduct_research_def conduct_research_via_opened)
  next
    case (Inr results3)
    with assms opened tb show ?thesis
      by (simp add: conduct_research_def conduct_research_via_opened)
  qed
  with f3 have f: "dirs w' = dirs w2" "handlers w' = handlers w2" "cwd w' = cwd w2"
    by auto
  have known: "''baker_street.session.'' @ session_id self \<in> handlers w'"
    using open_session_Inr(3) [OF opened] f by simp
  have "os_is_dir w2 (node w2 (Path output_dir))"
    using opened by (rule open_session_Inr(2))
  then have "os_is_dir w' (node w2 (Path output_dir))"
    using f(1) by (auto intro: os_is_dir_mono)
  moreover have "node w' (Path output_dir) = node w2 (Path output_dir)"
    using f(3) by (simp add: node_def)
  ultimately have dir: "os_is_dir w' (node w' (Path output_dir))"
    by simp
  have again: "open_session self output_dir w' = (Inr (Path output_dir), snd (now w'))"
    using known dir by (rule open_session_again)
  obtain r4 w4 where tb': "try_block own_phases self query' (Path output_dir) (snd (now w')) = (r4, w4)"
    by (cases "try_block own_phases self query' (Path output_dir) (snd (now w'))")
  show ?thesis
  proof (cases r4)
    case (Inl e)
    with tb' have "is_Exception e"
      by (auto dest: try_block_own_Inl)
    with Inl again tb' show ?thesis
      by (simp add: conduct_research_def conduct_research_via_opened)
  next
    case (Inr results4)
    with again tb' show ?thesis
      by (simp add: conduct_research_def conduct_research_via_opened)
  qed
qed

lemma successive_runs_same_session_id:
  assumes "conduct_research self query output_dir w = (Inr results, w')"
    and "conduct_research self query' output_dir' w' = (Inr results', w'')"
  shows "map_of results ''session_id'' = map_of results' ''session_id''"
  using assms returned_results [of own_phases self query output_dir w results w']
    returned_results [of own_phases self query' output_dir' w' results' w'']
  by (simp add: conduct_research_def)


section \<open>The dictionary returned to the caller\<close>

text \<open>
  Claim C6, as the specification states it: every call of \<open>conduct_research\<close>, ending in
  success or in failure, returns a dictionary with all of the fields session_id, query,
  timestamp, output_dir, status, summary and report_path. The failure branch returns other
  keys: when the place of the report is taken by a directory the run ends as failed, and
  its dictionary has no output_dir, no summary and no report_path.
\<close>

theorem failure_result_lacks_fields:
  "(case fst (conduct_research example_orchestrator ''Latest developments in AI research''
              ''research/output'' blocked_world) of
      Inl e \<Rightarrow> []
    | Inr results \<Rightarrow>
        [map_of results ''status'', map_of results ''output_dir'', map_of results ''summary'',
         map_of results ''report_path''])
   = [Some ''failed'', None, None, None]"
  by code_simp

text \<open>
  Claim C6, amended. Every call of \<open>conduct_research\<close> that returns (an exception raised
  while the session is opened, before the \<open>try\<close>, reaches the caller instead, and so does
  one raised by a phase that is no instance of \<open>Exception\<close>) returns a
  dictionary that holds the session_id of the orchestrator and the query. A completed run
  returns exactly the keys session_id, query, timestamp, output_dir, summary, report_path
  and status; a failed run returns exactly the keys session_id, query, timestamp, error and
  status, so that a failure is told apart from a success by its status and carries the
  text of the error.
\<close>

theorem result_keys:
  assumes "conduct_research_via ph self query output_dir w = (Inr results, w')"
  shows "map_of results ''session_id'' = Some (session_id self)
         \<and> map_of results ''query'' = Some query
         \<and> (map_of results ''status'' = Some ''completed''
              \<and> map fst results = [''session_id'', ''query'', ''timestamp'', ''output_dir'',
                                     ''summary'', ''report_path'', ''status'']
            \<or> map_of results ''status'' = Some ''failed''
              \<and> map fst results = [''session_id'', ''query'', ''timestamp'', ''error'', ''status''])"
  using assms by (rule returned_results)

theorem result_keys_witness:
  "\<not> isl (fst (conduct_research_via own_phases example_orchestrator
               ''Latest developments in AI research'' ''research/output'' example_world))
   \<and> map_of (projr (fst (conduct_research_via own_phases example_orchestrator
               ''Latest developments in AI research'' ''research/output'' example_world)))
         ''session_id'' = Some ''c9ef13b2''
   \<and> (map_of (projr (fst (conduct_research_via own_phases example_orchestrator
               ''Latest developments in AI research'' ''research/output'' example_world)))
         ''status'' = Some ''completed''
        \<and> map fst (projr (fst (conduct_research_via own_phases example_orchestrator
               ''Latest developments in AI research'' ''research/output'' example_world)))
            = [''session_id'', ''query'', ''timestamp'', ''output_dir'',
               ''summary'', ''report_path'', ''status'']
       \<or> map_of (projr (fst (conduct_research_via own_phases example_orchestrator
               ''Latest developments in AI research'' ''research/output'' example_world)))
         ''status'' = Some ''failed''
        \<and> map fst (projr (fst (conduct_research_via own_phases example_orchestrator
               ''Latest developments in AI research'' ''research/output'' example_world)))
            = [''session_id'', ''query'', ''timestamp'', ''error'', ''status''])"
proof -
  let ?run = "conduct_research_via own_phases example_orchestrator
               ''Latest developments in AI research'' ''research/output'' example_world"
  have ok: "\<not> isl (fst ?run)"
    unfolding conduct_research_def [symmetric] by code_simp
  then have run: "?run = (Inr (projr (fst ?run)), snd ?run)"
    by (rule returned_value)
  have sid: "session_id example_orchestrator = ''c9ef13b2''"
    by (simp add: example_orchestrator_def init_def)
  from result_keys [OF run, unfolded sid] ok show ?thesis
    by blast
qed


section \<open>A data collection that fails\<close>

text \<open>
  Claim C4, as the specification states it: for every query, when the data collection
  fails (raises), the run returns a result with status failed, the analysis and the report
  generation do not execute and no report file is created. The specification counts a
  cancelled or timed-out connector call as a failed collection. A collection that is
  cancelled raises \<open>asyncio.CancelledError\<close>, which is no instance of \<open>Exception\<close>: the
  clause \<open>except Exception\<close> does not catch it, and the run returns no result at all; the
  exception reaches the caller.
\<close>

theorem cancelled_collection_returns_no_result:
  "collect_data_m cancelled_collection (analyze_query ''Latest developments in AI research'')
     = Inl (Raised_outside_Exception ''CancelledError'' [])
   \<and> fst (conduct_research_via cancelled_collection example_orchestrator
            ''Latest developments in AI research'' ''research/output'' example_world)
     = Inl (Raised_outside_Exception ''CancelledError'' [])"
proof -
  let ?opened = "open_session example_orchestrator ''research/output'' example_world"
  have "\<not> isl (fst ?opened)"
    by code_simp
  then have opened: "?opened = (Inr (projr (fst ?opened)), snd ?opened)"
    by (rule returned_value)
  have raised: "collect_data_m cancelled_collection
       (analyze_query ''Latest developments in AI research'')
     = Inl (Raised_outside_Exception ''CancelledError'' [])"
    by (simp add: cancelled_collection_def)
  have "analyze_query_m cancelled_collection ''Latest developments in AI research''
     = Inr (analyze_query ''Latest developments in AI research'')"
    by (simp add: cancelled_collection_def own_phases_def)
  then have "try_block cancelled_collection example_orchestrator
       ''Latest developments in AI research'' (projr (fst ?opened)) (snd ?opened)
     = (Inl (Raised_outside_Exception ''CancelledError'' []), snd ?opened)"
    using raised by (rule try_block_collect_fails)
  then have "fst (conduct_research_via cancelled_collection example_orchestrator
            ''Latest developments in AI research'' ''research/output'' example_world)
     = Inl (Raised_outside_Exception ''CancelledError'' [])"
    by (simp add: conduct_research_via_opened [OF opened])
  with raised show ?thesis
    by (rule conjI)
qed

text \<open>
  Claim C4, amended. For every query, when the session has been opened and the data
  collection raises an instance of \<open>Exception\<close>, the run returns a dictionary with status
  failed and the text of the error; when it raises an exception that is no instance of
  \<open>Exception\<close> (a cancellation, a keyboard interrupt, an exit), that exception reaches the
  caller and no dictionary is returned. In both cases the analysis and the report
  generation are not run, which shows in that the outcome is the same whatever those two
  phases are bound to; the files are those that the opening of the session left, and the
  report file is as it was before the call.
\<close>

theorem failed_collection_stops_run:
  assumes "open_session self output_dir w = (Inr output_path, w2)"
    and "analyze_query_m ph query = Inr research_plan"
    and "collect_data_m ph research_plan = Inl e"
  shows "\<exists>outcome w'.
           conduct_research_via ph self query output_dir w = (outcome, w')
           \<and> (if is_Exception e
               then \<exists>results. outcome = Inr results
                      \<and> map_of results ''status'' = Some ''failed''
                      \<and> map_of results ''error'' = Some (exn_str e)
               else outcome = Inl e)
           \<and> files w' = files w2
           \<and> files w' (node w' (report_file self (Path output_dir)))
               = files w (node w (report_file self (Path output_dir)))
           \<and> conduct_research_via
                 (ph\<lparr>analyze_data_m := other_analysis, generate_report_m := other_report\<rparr>)
                 self query output_dir w = (outcome, w')"
proof -
  let ?results = "[(''session_id'', session_id self), (''query'', query),
                   (''timestamp'', isoformat (fst (now w2))), (''error'', exn_str e),
                   (''status'', ''failed'')]"
  let ?ph' = "ph\<lparr>analyze_data_m := other_analysis, generate_report_m := other_report\<rparr>"
  let ?outcome = "if is_Exception e then Inr ?results else Inl e"
  let ?w' = "if is_Exception e then snd (now w2) else w2"
  have "try_block ph self query output_path w2 = (Inl e, w2)"
    using assms(2,3) by (rule try_block_collect_fails)
  with assms(1) have run: "conduct_research_via ph self query output_dir w = (?outcome, ?w')"
    by (simp add: conduct_research_via_opened)
  have "try_block ?ph' self query output_path w2 = (Inl e, w2)"
    using assms(2,3) by (simp add: try_block_collect_fails)
  with assms(1) have run': "conduct_research_via ?ph' self query output_dir w = (?outcome, ?w')"
    by (simp add: conduct_research_via_opened)
  have cwd: "cwd w2 = cwd w"
    using assms(1) by (rule open_session_Inr(4))
  have unchanged: "files w2 (node w (report_file self (Path output_dir)))
          = files w (node w (report_file self (Path output_dir)))"
    using open_session_Inr(5) [OF assms(1)] report_not_below_logs by blast
  have place: "node ?w' (report_file self (Path output_dir))
          = node w (report_file self (Path output_dir))"
    using cwd by (simp add: node_def)
  have files: "files ?w' = files w2"
    by simp
  have outcome: "if is_Exception e
               then \<exists>results. ?outcome = Inr results
                      \<and> map_of results ''status'' = Some ''failed''
                      \<and> map_of results ''error'' = Some (exn_str e)
               else ?outcome = Inl e"
    by simp
  have "files ?w' (node ?w' (report_file self (Path output_dir)))
          = files w (node w (report_file self (Path output_dir)))"
    using unchanged by (simp only: place files)
  with run run' outcome files show ?thesis
    by blast
qed

theorem failed_collection_stops_run_witness:
  "\<not> isl (fst (open_session example_orchestrator ''research/output'' example_world))
   \<and> analyze_query_m failing_collection ''Latest developments in AI research''
       = Inr (analyze_query ''Latest developments in AI research'')
   \<and> collect_data_m failing_collection (analyze_query ''Latest developments in AI research'')
       = Inl (Raised ''ConnectionError'' ''source unreachable'')
   \<and> is_Exception (Raised ''ConnectionError'' ''source unreachable'')
   \<and> (\<exists>results w'.
         conduct_research_via failing_collection example_orchestrator
           ''Latest developments in AI research'' ''research/output'' example_world
           = (Inr results, w')
         \<and> map_of results ''status'' = Some ''failed''
         \<and> map_of results ''error'' = Some ''source unreachable''
         \<and> files w' (node w' (report_file example_orchestrator (Path ''research/output'')))
             = None)"
proof -
  let ?opened = "open_session example_orchestrator ''research/output'' example_world"
  have ok: "\<not> isl (fst ?opened)"
    by code_simp
  then have opened: "?opened = (Inr (projr (fst ?opened)), snd ?opened)"
    by (rule returned_value)
  have plan: "analyze_query_m failing_collection ''Latest developments in AI research''
       = Inr (analyze_query ''Latest developments in AI research'')"
    by (simp add: failing_collection_def own_phases_def)
  have raised: "collect_data_m failing_collection (analyze_query ''Latest developments in AI research'')
       = Inl (Raised ''ConnectionError'' ''source unreachable'')"
    by (simp add: failing_collection_def)
  have caught: "is_Exception (Raised ''ConnectionError'' ''source unreachable'')"
    by simp
  have absent: "files example_world
       (node example_world (report_file example_orchestrator (Path ''research/output''))) = None"
    by (simp add: example_world_def)
  from failed_collection_stops_run [OF opened plan raised] absent
  have "\<exists>results w'.
         conduct_research_via failing_collection example_orchestrator
           ''Latest developments in AI research'' ''research/output'' example_world
           = (Inr results, w')
         \<and> map_of results ''status'' = Some ''failed''
         \<and> map_of results ''error'' = Some ''source unreachable''
         \<and> files w' (node w' (report_file example_orchestrator (Path ''research/output'')))
             = None"
    by fastforce
  with ok plan raised caught show ?thesis
    by blast
qed


section \<open>Session identifiers\<close>

text \<open>
  Claim C3. Opening a session twice with the same output directory does not fail, and any
  two openings yield distinct session identifiers; in particular two successive calls of
  \<open>conduct_research\<close> on one orchestrator run under distinct identifiers. The code
  diverges from the second half: the identifier is drawn in \<open>__init__\<close> only, so two
  successive runs on one orchestrator, as the web service makes them on its single
  orchestrator, both end as completed under the same identifier and report the same
  report file, which the second run has overwritten.
\<close>

theorem successive_runs_share_session_id:
  "(case conduct_research example_orchestrator ''Latest developments in AI research''
           ''research/output'' example_world of
      (Inl e, w1) \<Rightarrow> False
    | (Inr earlier, w1) \<Rightarrow>
        (case conduct_research example_orchestrator ''History of the telescope''
                ''research/output'' w1 of
           (Inl e, w2) \<Rightarrow> False
         | (Inr later, w2) \<Rightarrow>
             map_of earlier ''status'' = Some ''completed''
             \<and> map_of later ''status'' = Some ''completed''
             \<and> map_of earlier ''session_id'' = Some ''c9ef13b2''
             \<and> map_of later ''session_id'' = Some ''c9ef13b2''
             \<and> map_of earlier ''report_path''
                 = Some ''research/output/research_report_c9ef13b2.md''
             \<and> map_of later ''report_path''
                 = Some ''research/output/research_report_c9ef13b2.md''))"
  by code_simp

end
